theory Spec2Isabelle
  imports Main
begin

section \<open>Values exchanged with the remote service\<close>

text \<open>
  The handlers of \<^verbatim>\<open>server.py\<close> return Python dictionaries and pass the payloads of the
  Garmin client library through. A Python value is modelled as a \<open>json\<close> term; a
  dictionary is an association list in insertion order (the keys of a well-formed
  dictionary are distinct), a float is identified by its \<^verbatim>\<open>repr\<close> text.
\<close>

datatype json =
    JNull
  | JBool bool
  | JInt int
  | JFloat string
  | JStr string
  | JList "json list"
  | JDict "(string \<times> json) list"

text \<open>
  Exceptions, as far as the \<^verbatim>\<open>except\<close> clauses of the handlers tell them apart. Each
  carries \<^verbatim>\<open>str(e)\<close>. \<open>ConnectionError\<close> is the builtin one (and its subclasses),
  \<open>OtherException\<close> is every other subclass of \<^verbatim>\<open>Exception\<close> (AttributeError, TypeError,
  OverflowError, ...).
\<close>

datatype exn =
    ConnectionError string
  | GarminConnectAuthenticationError string
  | GarminConnectConnectionError string
  | GarminConnectTooManyRequestsError string
  | ValueError string
  | OtherException string

section \<open>Calendar dates\<close>

text \<open>
  \<^verbatim>\<open>datetime.date\<close>: a year, a month and a day; dates compare as these triples do.
\<close>

record date =
  year :: nat
  month :: nat
  day :: nat

definition is_leap :: "nat \<Rightarrow> bool" where
  "is_leap y \<longleftrightarrow> y mod 4 = 0 \<and> (y mod 100 \<noteq> 0 \<or> y mod 400 = 0)"

definition days_in_month :: "nat \<Rightarrow> nat \<Rightarrow> nat" where
  "days_in_month y m =
     (if m = 2 then (if is_leap y then 29 else 28)
      else if m = 4 \<or> m = 6 \<or> m = 9 \<or> m = 11 then 30 else 31)"

definition MAXYEAR :: nat where
  "MAXYEAR = 9999"

definition valid_date :: "date \<Rightarrow> bool" where
  "valid_date d \<longleftrightarrow>
     1 \<le> year d \<and> year d \<le> MAXYEAR \<and> 1 \<le> month d \<and> month d \<le> 12 \<and>
     1 \<le> day d \<and> day d \<le> days_in_month (year d) (month d)"

definition date_less :: "date \<Rightarrow> date \<Rightarrow> bool" where
  "date_less a b \<longleftrightarrow>
     year a < year b \<or>
     (year a = year b \<and> (month a < month b \<or> (month a = month b \<and> day a < day b)))"

definition date_le :: "date \<Rightarrow> date \<Rightarrow> bool" where
  "date_le a b \<longleftrightarrow>
     year a < year b \<or>
     (year a = year b \<and> (month a < month b \<or> (month a = month b \<and> day a \<le> day b)))"

text \<open>
  \<^verbatim>\<open>current + timedelta(days=1)\<close>: the next calendar day; past 9999-12-31 the library raises
  \<^verbatim>\<open>OverflowError("date value out of range")\<close>.
\<close>

definition add_one_day :: "date \<Rightarrow> exn + date" where
  "add_one_day d =
     (if day d < days_in_month (year d) (month d) then Inr (d\<lparr>day := day d + 1\<rparr>)
      else if month d < 12 then Inr (d\<lparr>month := month d + 1, day := 1\<rparr>)
      else if year d < MAXYEAR then Inr \<lparr>year = year d + 1, month = 1, day = 1\<rparr>
      else Inl (OtherException ''date value out of range''))"

subsection \<open>Printing\<close>

definition digit_char :: "nat \<Rightarrow> char" where
  "digit_char n = char_of (48 + n)"

fun decimal :: "nat \<Rightarrow> string" where
  "decimal n = (if n < 10 then [digit_char n] else decimal (n div 10) @ [digit_char (n mod 10)])"

declare decimal.simps [simp del]

definition zero_pad :: "nat \<Rightarrow> string \<Rightarrow> string" where
  "zero_pad w s = replicate (w - length s) (CHR ''0'') @ s"

text \<open>\<^verbatim>\<open>date.isoformat()\<close>, that is \<^verbatim>\<open>"%04d-%02d-%02d" % (year, month, day)\<close>.\<close>

definition isoformat :: "date \<Rightarrow> string" where
  "isoformat d =
     zero_pad 4 (decimal (year d)) @ ''-'' @ zero_pad 2 (decimal (month d)) @ ''-'' @
     zero_pad 2 (decimal (day d))"

subsection \<open>Parsing with \<^verbatim>\<open>datetime.strptime(s, "%Y-%m-%d")\<close>\<close>

text \<open>
  The library turns the format into the regular expression
  \<^verbatim>\<open>(?P<Y>\d\d\d\d)-(?P<m>1[0-2]|0[1-9]|[1-9])-(?P<d>3[01]|[12]\d|0[1-9]|[1-9]| [1-9])\<close>,
  matches it at the start of the string (alternatives in order, with backtracking),
  refuses a string with characters left after the match, and then refuses numbers that
  are no calendar date. Each of the three refusals is a \<^verbatim>\<open>ValueError\<close>. A string is a
  list of 8-bit characters, among which the decimal digits are \<open>0\<close> to \<open>9\<close>.
\<close>

definition is_digit :: "char \<Rightarrow> bool" where
  "is_digit c \<longleftrightarrow> c \<in> set ''0123456789''"

definition digit_val :: "char \<Rightarrow> nat" where
  "digit_val c = of_char c - 48"

definition match_Y :: "string \<Rightarrow> (nat \<times> string) option" where
  "match_Y s =
     (case s of
        a # b # c # d # rest \<Rightarrow>
          if is_digit a \<and> is_digit b \<and> is_digit c \<and> is_digit d
          then Some (1000 * digit_val a + 100 * digit_val b + 10 * digit_val c + digit_val d, rest)
          else None
      | _ \<Rightarrow> None)"

definition match_dash :: "string \<Rightarrow> string option" where
  "match_dash s = (case s of c # rest \<Rightarrow> if c = CHR ''-'' then Some rest else None | [] \<Rightarrow> None)"

text \<open>One alternative of two characters, and one of a single character.\<close>

definition alt2 :: "string \<Rightarrow> string \<Rightarrow> string \<Rightarrow> (nat \<times> string) list" where
  "alt2 first second s =
     (case s of
        a # b # rest \<Rightarrow>
          if a \<in> set first \<and> b \<in> set second
          then [((if is_digit a then 10 * digit_val a else 0) + digit_val b, rest)] else []
      | _ \<Rightarrow> [])"

definition alt1 :: "string \<Rightarrow> string \<Rightarrow> (nat \<times> string) list" where
  "alt1 first s =
     (case s of a # rest \<Rightarrow> if a \<in> set first then [(digit_val a, rest)] else [] | [] \<Rightarrow> [])"

text \<open>The ways the month and the day group match, in the order the regex tries them.\<close>

definition match_m :: "string \<Rightarrow> (nat \<times> string) list" where
  "match_m s = alt2 ''1'' ''012'' s @ alt2 ''0'' ''123456789'' s @ alt1 ''123456789'' s"

definition match_d :: "string \<Rightarrow> (nat \<times> string) list" where
  "match_d s =
     alt2 ''3'' ''01'' s @ alt2 ''12'' ''0123456789'' s @ alt2 ''0'' ''123456789'' s @
     alt1 ''123456789'' s @ alt2 '' '' ''123456789'' s"

fun first_match :: "('a \<Rightarrow> 'b option) \<Rightarrow> 'a list \<Rightarrow> 'b option" where
  "first_match f [] = None"
| "first_match f (x # xs) = (case f x of Some y \<Rightarrow> Some y | None \<Rightarrow> first_match f xs)"

definition regex_match :: "string \<Rightarrow> ((nat \<times> nat \<times> nat) \<times> string) option" where
  "regex_match s =
     (case match_Y s of
        None \<Rightarrow> None
      | Some (y, r1) \<Rightarrow>
          (case match_dash r1 of
             None \<Rightarrow> None
           | Some r2 \<Rightarrow>
               first_match
                 (\<lambda>(m, r3).
                    case match_dash r3 of
                      None \<Rightarrow> None
                    | Some r4 \<Rightarrow>
                        (case match_d r4 of
                           [] \<Rightarrow> None
                         | (d, r5) # _ \<Rightarrow> Some ((y, m, d), r5)))
                 (match_m r2)))"

text \<open>
  \<open>strptime_date s\<close> is \<^verbatim>\<open>datetime.strptime(s, "%Y-%m-%d").date()\<close>; \<open>None\<close> stands for the
  \<^verbatim>\<open>ValueError\<close>, whose text the handler takes from the library.
\<close>

definition strptime_date :: "string \<Rightarrow> date option" where
  "strptime_date s =
     (case regex_match s of
        None \<Rightarrow> None
      | Some ((y, m, d), rest) \<Rightarrow>
          if rest \<noteq> [] then None
          else if valid_date \<lparr>year = y, month = m, day = d\<rparr>
          then Some \<lparr>year = y, month = m, day = d\<rparr> else None)"

subsection \<open>The loop of \<^verbatim>\<open>update_menstrual_cycle\<close>\<close>

text \<open>
  \<^verbatim>\<open>
  cycle_dates = []
  current = start
  while current <= end:
      cycle_dates.append(current.isoformat())
      current += timedelta(days=1)
  \<close>
\<close>

function build_cycle_dates :: "date \<Rightarrow> date \<Rightarrow> string list \<Rightarrow> exn + string list" where
  "build_cycle_dates current end cycle_dates =
     (if date_le current end then
        (case add_one_day current of
           Inl e \<Rightarrow> Inl e
         | Inr next \<Rightarrow> build_cycle_dates next end (cycle_dates @ [isoformat current]))
      else Inr cycle_dates)"
  by pat_completeness auto
termination
proof (relation "measures [\<lambda>(c, e, a). year e + 1 - year c, \<lambda>(c, e, a). 12 - month c,
    \<lambda>(c, e, a). 31 - day c]", goal_cases)
  case 1
  show ?case by simp
next
  case (2 cur e acc nxt)
  then show ?case
    by (auto simp: add_one_day_def date_le_def days_in_month_def split: if_splits)
qed

declare build_cycle_dates.simps [simp del]

section \<open>The process state and its environment\<close>

text \<open>
  The module-level variable \<^verbatim>\<open>client\<close> holds the session (a \<^verbatim>\<open>Garmin\<close> object) or
  \<^verbatim>\<open>None\<close>. A session remembers how it was built.
\<close>

datatype session = Token_session | Credential_session string string

text \<open>The methods of the client library that the handlers call, with their arguments.\<close>

datatype request =
    Garmin_get_user_summary string
  | Garmin_get_body_battery string
  | Garmin_get_body_battery_events string
  | Garmin_get_sleep_data string
  | Garmin_get_heart_rates string
  | Garmin_get_rhr_day string
  | Garmin_get_stress_data string
  | Garmin_get_steps_data string
  | Garmin_get_menstrual_data_for_date string
  | Garmin_connectapi string string json
  | Garmin_get_hrv_data string
  | Garmin_get_hydration_data string
  | Garmin_add_hydration_data string
  | Garmin_get_activities int int

text \<open>
  Every call into the client library is recorded, whether it returns or raises:
  \<^verbatim>\<open>c.login(tokenstore=TOKENSTORE)\<close>, \<^verbatim>\<open>c.login()\<close> on a client built from an email and a
  password, \<^verbatim>\<open>c.garth.dump(TOKENSTORE)\<close>, and a data request on a session.
\<close>

datatype event =
    Login_tokenstore
  | Login_credentials string string
  | Garth_dump
  | Request session request

record world =
  client :: "session option"
  trace :: "event list"

text \<open>
  What the code reads from outside: the answer of the library to a call (which may depend
  on everything that was called before), whether the token store path exists, the two
  credential variables and the profile number of the process configuration, the clock,
  and the text of the \<^verbatim>\<open>ValueError\<close> that \<^verbatim>\<open>strptime\<close> raises for a string.
\<close>

record env =
  respond :: "event list \<Rightarrow> event \<Rightarrow> exn + json"
  path_exists_TOKENSTORE :: "event list \<Rightarrow> bool"
  GARMIN_EMAIL :: "string option"
  GARMIN_PASSWORD :: "string option"
  GARMIN_USER_PROFILE_PK :: int
  today :: date
  now :: string
  strptime_error :: "string \<Rightarrow> string"

type_synonym 'a comp = "world \<Rightarrow> (exn + 'a) \<times> world"

definition returns :: "'a \<Rightarrow> 'a comp" where
  "returns v w = (Inr v, w)"

definition lift :: "exn + 'a \<Rightarrow> 'a comp" where
  "lift r w = (r, w)"

definition cbind :: "'a comp \<Rightarrow> ('a \<Rightarrow> 'b comp) \<Rightarrow> 'b comp" where
  "cbind m f w = (case m w of (Inl e, w') \<Rightarrow> (Inl e, w') | (Inr v, w') \<Rightarrow> f v w')"

definition ebind :: "exn + 'a \<Rightarrow> ('a \<Rightarrow> exn + 'b) \<Rightarrow> exn + 'b" where
  "ebind r f = (case r of Inl e \<Rightarrow> Inl e | Inr v \<Rightarrow> f v)"

definition call :: "env \<Rightarrow> event \<Rightarrow> json comp" where
  "call env ev w = (respond env (trace w) ev, w\<lparr>trace := trace w @ [ev]\<rparr>)"

section \<open>The session manager\<close>

definition truthy :: "string option \<Rightarrow> bool" where
  "truthy v \<longleftrightarrow> (case v of None \<Rightarrow> False | Some s \<Rightarrow> s \<noteq> [])"

definition token_login :: "env \<Rightarrow> json comp" where
  "token_login env = cbind (call env Login_tokenstore) (\<lambda>_. call env Garth_dump)"

definition credential_login :: "env \<Rightarrow> string \<Rightarrow> string \<Rightarrow> json comp" where
  "credential_login env email password =
     cbind (call env (Login_credentials email password)) (\<lambda>_. call env Garth_dump)"

text \<open>Lines 47 to 63 of \<^verbatim>\<open>init_client\<close>: the fall back to email and password.\<close>

definition credential_fallback :: "env \<Rightarrow> world \<Rightarrow> session option \<times> world" where
  "credential_fallback env w =
     (if truthy (GARMIN_EMAIL env) \<and> truthy (GARMIN_PASSWORD env) then
        (let email = the (GARMIN_EMAIL env); password = the (GARMIN_PASSWORD env) in
         case credential_login env email password w of
           (Inr _, w') \<Rightarrow>
             (Some (Credential_session email password),
              w'\<lparr>client := Some (Credential_session email password)\<rparr>)
         | (Inl e, w') \<Rightarrow> (None, w'))
      else (None, w))"

definition init_client :: "env \<Rightarrow> world \<Rightarrow> session option \<times> world" where
  "init_client env w =
     (if path_exists_TOKENSTORE env (trace w) then
        (case token_login env w of
           (Inr _, w') \<Rightarrow> (Some Token_session, w'\<lparr>client := Some Token_session\<rparr>)
         | (Inl e, w') \<Rightarrow> credential_fallback env w')
      else credential_fallback env w)"

definition not_authenticated :: string where
  "not_authenticated = ''Not authenticated. Run auth.py to set up Garmin credentials.''"

definition get_client :: "env \<Rightarrow> session comp" where
  "get_client env w =
     (let w1 = (if client w = None then snd (init_client env w) else w) in
      case client w1 of
        None \<Rightarrow> (Inl (ConnectionError not_authenticated), w1)
      | Some c \<Rightarrow> (Inr c, w1))"

definition resolve_date :: "env \<Rightarrow> string option \<Rightarrow> string" where
  "resolve_date env d = (if truthy d then the d else isoformat (today env))"

section \<open>The result envelope and the \<^verbatim>\<open>except\<close> clauses\<close>

definition failure :: "string \<Rightarrow> json" where
  "failure msg = JDict [(''success'', JBool False), (''error'', JStr msg)]"

fun str_exn :: "exn \<Rightarrow> string" where
  "str_exn (ConnectionError s) = s"
| "str_exn (GarminConnectAuthenticationError s) = s"
| "str_exn (GarminConnectConnectionError s) = s"
| "str_exn (GarminConnectTooManyRequestsError s) = s"
| "str_exn (ValueError s) = s"
| "str_exn (OtherException s) = s"

text \<open>An \<^verbatim>\<open>except\<close> clause gives the value returned, or \<open>None\<close> when it does not match.\<close>

fun except_ConnectionError :: "exn \<Rightarrow> json option" where
  "except_ConnectionError (ConnectionError s) = Some (failure s)"
| "except_ConnectionError _ = None"

fun except_Garmin :: "exn \<Rightarrow> json option" where
  "except_Garmin (GarminConnectAuthenticationError s) = Some (failure (''Garmin API error: '' @ s))"
| "except_Garmin (GarminConnectConnectionError s) = Some (failure (''Garmin API error: '' @ s))"
| "except_Garmin (GarminConnectTooManyRequestsError s) = Some (failure (''Garmin API error: '' @ s))"
| "except_Garmin _ = None"

fun except_ValueError :: "exn \<Rightarrow> json option" where
  "except_ValueError (ValueError s) = Some (failure (''Invalid date format: '' @ s))"
| "except_ValueError _ = None"

definition except_Exception :: "exn \<Rightarrow> json option" where
  "except_Exception e = Some (failure (str_exn e))"

text \<open>
  \<^verbatim>\<open>try: body except ...\<close>: the first clause that matches gives the result; an exception that
  no clause matches leaves the handler.
\<close>

definition try_except :: "json comp \<Rightarrow> (exn \<Rightarrow> json option) list \<Rightarrow> json comp" where
  "try_except body clauses w =
     (case body w of
        (Inr v, w') \<Rightarrow> (Inr v, w')
      | (Inl e, w') \<Rightarrow>
          (case first_match (\<lambda>clause. clause e) clauses of
             Some v \<Rightarrow> (Inr v, w')
           | None \<Rightarrow> (Inl e, w')))"

definition read_clauses :: "(exn \<Rightarrow> json option) list" where
  "read_clauses = [except_ConnectionError, except_Garmin, except_Exception]"

definition cycle_clauses :: "(exn \<Rightarrow> json option) list" where
  "cycle_clauses = [except_ConnectionError, except_Garmin, except_ValueError, except_Exception]"

section \<open>Python operations on payloads\<close>

fun type_name :: "json \<Rightarrow> string" where
  "type_name JNull = ''NoneType''"
| "type_name (JBool _) = ''bool''"
| "type_name (JInt _) = ''int''"
| "type_name (JFloat _) = ''float''"
| "type_name (JStr _) = ''str''"
| "type_name (JList _) = ''list''"
| "type_name (JDict _) = ''dict''"

text \<open>\<^verbatim>\<open>v.get(key, default)\<close>: only a dictionary has the method.\<close>

fun py_get :: "json \<Rightarrow> string \<Rightarrow> json \<Rightarrow> exn + json" where
  "py_get (JDict items) key dflt = Inr (case map_of items key of None \<Rightarrow> dflt | Some v \<Rightarrow> v)"
| "py_get v key dflt =
     Inl (OtherException ([CHR 0x27] @ type_name v @ [CHR 0x27] @ '' object has no attribute '' @
       [CHR 0x27] @ ''get'' @ [CHR 0x27]))"

text \<open>\<^verbatim>\<open>len(v)\<close>\<close>

fun py_len :: "json \<Rightarrow> exn + nat" where
  "py_len (JList xs) = Inr (length xs)"
| "py_len (JDict items) = Inr (length items)"
| "py_len (JStr s) = Inr (length s)"
| "py_len v =
     Inl (OtherException (''object of type '' @ [CHR 0x27] @ type_name v @ [CHR 0x27] @
       '' has no len()''))"

text \<open>A dictionary display: the values are computed in order, the first exception wins.\<close>

fun dict_items :: "(string \<times> (exn + json)) list \<Rightarrow> exn + (string \<times> json) list" where
  "dict_items [] = Inr []"
| "dict_items ((k, r) # rest) =
     (case r of
        Inl e \<Rightarrow> Inl e
      | Inr v \<Rightarrow> (case dict_items rest of Inl e \<Rightarrow> Inl e | Inr items \<Rightarrow> Inr ((k, v) # items)))"

definition dict_display :: "(string \<times> (exn + json)) list \<Rightarrow> exn + json" where
  "dict_display entries = (case dict_items entries of Inl e \<Rightarrow> Inl e | Inr items \<Rightarrow> Inr (JDict items))"

section \<open>The handlers\<close>

text \<open>
  Each handler is its \<^verbatim>\<open>try\<close> body, named \<open>_body\<close>, under its \<^verbatim>\<open>except\<close> clauses. The
  date of a read handler is resolved before the \<^verbatim>\<open>try\<close>.
\<close>

definition get_daily_summary_body :: "env \<Rightarrow> string \<Rightarrow> json comp" where
  "get_daily_summary_body env cdate =
     cbind (get_client env) (\<lambda>garmin.
     cbind (call env (Request garmin (Garmin_get_user_summary cdate))) (\<lambda>payload.
     returns (JDict [(''success'', JBool True), (''date'', JStr cdate), (''data'', payload)])))"

definition get_daily_summary :: "env \<Rightarrow> string option \<Rightarrow> json comp" where
  "get_daily_summary env date = try_except (get_daily_summary_body env (resolve_date env date)) read_clauses"

definition get_body_battery_body :: "env \<Rightarrow> string \<Rightarrow> json comp" where
  "get_body_battery_body env cdate =
     cbind (get_client env) (\<lambda>garmin.
     cbind (call env (Request garmin (Garmin_get_body_battery cdate))) (\<lambda>battery.
     cbind (call env (Request garmin (Garmin_get_body_battery_events cdate))) (\<lambda>events.
     returns (JDict [(''success'', JBool True), (''date'', JStr cdate), (''battery'', battery),
       (''events'', events)]))))"

definition get_body_battery :: "env \<Rightarrow> string option \<Rightarrow> json comp" where
  "get_body_battery env date = try_except (get_body_battery_body env (resolve_date env date)) read_clauses"

text \<open>The projection of \<^verbatim>\<open>get_sleep_data\<close>, lines 158 to 182.\<close>

definition sleep_summary :: "json \<Rightarrow> exn + json" where
  "sleep_summary sleep =
     ebind (py_get sleep ''dailySleepDTO'' (JDict [])) (\<lambda>dto.
     ebind (py_get dto ''sleepScores'' (JDict [])) (\<lambda>scores.
     ebind (py_get sleep ''sleepLevels'' (JList [])) (\<lambda>levels.
     dict_display
       [(''calendarDate'', py_get dto ''calendarDate'' JNull),
        (''sleepScore'',
           ebind (py_get scores ''overall'' (JDict [])) (\<lambda>overall. py_get overall ''value'' JNull)),
        (''sleepQuality'',
           ebind (py_get scores ''overall'' (JDict [])) (\<lambda>overall.
             py_get overall ''qualifierKey'' JNull)),
        (''sleepStartLocal'', py_get dto ''sleepStartTimestampLocal'' JNull),
        (''sleepEndLocal'', py_get dto ''sleepEndTimestampLocal'' JNull),
        (''sleepDurationSecs'', py_get dto ''sleepTimeSeconds'' JNull),
        (''deepSleepSecs'', py_get dto ''deepSleepSeconds'' JNull),
        (''lightSleepSecs'', py_get dto ''lightSleepSeconds'' JNull),
        (''remSleepSecs'', py_get dto ''remSleepSeconds'' JNull),
        (''awakeSleepSecs'', py_get dto ''awakeSleepSeconds'' JNull),
        (''averageSpO2'', py_get dto ''averageSpO2Value'' JNull),
        (''lowestSpO2'', py_get dto ''lowestSpO2Value'' JNull),
        (''averageRespiration'', py_get dto ''averageRespirationValue'' JNull),
        (''restingHeartRate'', py_get sleep ''restingHeartRate'' JNull),
        (''avgOvernightHrv'', py_get sleep ''avgOvernightHrv'' JNull),
        (''hrvStatus'', py_get sleep ''hrvStatus'' JNull),
        (''bodyBatteryChange'', py_get sleep ''bodyBatteryChange'' JNull),
        (''restlessMomentsCount'', py_get sleep ''restlessMomentsCount'' JNull),
        (''sleepLevels'', Inr levels)])))"

definition get_sleep_data_body :: "env \<Rightarrow> string \<Rightarrow> json comp" where
  "get_sleep_data_body env cdate =
     cbind (get_client env) (\<lambda>garmin.
     cbind (call env (Request garmin (Garmin_get_sleep_data cdate))) (\<lambda>sleep.
     cbind (lift (sleep_summary sleep)) (\<lambda>summary.
     returns (JDict [(''success'', JBool True), (''date'', JStr cdate), (''data'', summary)]))))"

definition get_sleep_data :: "env \<Rightarrow> string option \<Rightarrow> json comp" where
  "get_sleep_data env date = try_except (get_sleep_data_body env (resolve_date env date)) read_clauses"

text \<open>The projection of \<^verbatim>\<open>get_sleep_detail\<close>, lines 212 to 221.\<close>

definition sleep_detail :: "json \<Rightarrow> exn + json" where
  "sleep_detail sleep =
     dict_display
       [(''sleepMovement'', py_get sleep ''sleepMovement'' JNull),
        (''sleepHeartRate'', py_get sleep ''sleepHeartRate'' JNull),
        (''sleepStress'', py_get sleep ''sleepStress'' JNull),
        (''sleepBodyBattery'', py_get sleep ''sleepBodyBattery'' JNull),
        (''hrvData'', py_get sleep ''hrvData'' JNull),
        (''spO2Data'', py_get sleep ''wellnessEpochSPO2DataDTOList'' JNull),
        (''respirationData'', py_get sleep ''wellnessEpochRespirationDataDTOList'' JNull),
        (''restlessMoments'', py_get sleep ''sleepRestlessMoments'' JNull)]"

definition get_sleep_detail_body :: "env \<Rightarrow> string \<Rightarrow> json comp" where
  "get_sleep_detail_body env cdate =
     cbind (get_client env) (\<lambda>garmin.
     cbind (call env (Request garmin (Garmin_get_sleep_data cdate))) (\<lambda>sleep.
     cbind (lift (sleep_detail sleep)) (\<lambda>detail.
     returns (JDict [(''success'', JBool True), (''date'', JStr cdate), (''data'', detail)]))))"

definition get_sleep_detail :: "env \<Rightarrow> string option \<Rightarrow> json comp" where
  "get_sleep_detail env date = try_except (get_sleep_detail_body env (resolve_date env date)) read_clauses"

definition get_heart_rate_body :: "env \<Rightarrow> string \<Rightarrow> json comp" where
  "get_heart_rate_body env cdate =
     cbind (get_client env) (\<lambda>garmin.
     cbind (call env (Request garmin (Garmin_get_heart_rates cdate))) (\<lambda>payload.
     returns (JDict [(''success'', JBool True), (''date'', JStr cdate), (''data'', payload)])))"

definition get_heart_rate :: "env \<Rightarrow> string option \<Rightarrow> json comp" where
  "get_heart_rate env date = try_except (get_heart_rate_body env (resolve_date env date)) read_clauses"

definition get_resting_heart_rate_body :: "env \<Rightarrow> string \<Rightarrow> json comp" where
  "get_resting_heart_rate_body env cdate =
     cbind (get_client env) (\<lambda>garmin.
     cbind (call env (Request garmin (Garmin_get_rhr_day cdate))) (\<lambda>payload.
     returns (JDict [(''success'', JBool True), (''date'', JStr cdate), (''data'', payload)])))"

definition get_resting_heart_rate :: "env \<Rightarrow> string option \<Rightarrow> json comp" where
  "get_resting_heart_rate env date = try_except (get_resting_heart_rate_body env (resolve_date env date)) read_clauses"

definition get_stress_body :: "env \<Rightarrow> string \<Rightarrow> json comp" where
  "get_stress_body env cdate =
     cbind (get_client env) (\<lambda>garmin.
     cbind (call env (Request garmin (Garmin_get_stress_data cdate))) (\<lambda>payload.
     returns (JDict [(''success'', JBool True), (''date'', JStr cdate), (''data'', payload)])))"

definition get_stress :: "env \<Rightarrow> string option \<Rightarrow> json comp" where
  "get_stress env date = try_except (get_stress_body env (resolve_date env date)) read_clauses"

definition get_steps_body :: "env \<Rightarrow> string \<Rightarrow> json comp" where
  "get_steps_body env cdate =
     cbind (get_client env) (\<lambda>garmin.
     cbind (call env (Request garmin (Garmin_get_steps_data cdate))) (\<lambda>payload.
     returns (JDict [(''success'', JBool True), (''date'', JStr cdate), (''data'', payload)])))"

definition get_steps :: "env \<Rightarrow> string option \<Rightarrow> json comp" where
  "get_steps env date = try_except (get_steps_body env (resolve_date env date)) read_clauses"

definition get_menstrual_cycle_body :: "env \<Rightarrow> string \<Rightarrow> json comp" where
  "get_menstrual_cycle_body env cdate =
     cbind (get_client env) (\<lambda>garmin.
     cbind (call env (Request garmin (Garmin_get_menstrual_data_for_date cdate))) (\<lambda>payload.
     returns (JDict [(''success'', JBool True), (''date'', JStr cdate), (''data'', payload)])))"

definition get_menstrual_cycle :: "env \<Rightarrow> string option \<Rightarrow> json comp" where
  "get_menstrual_cycle env date = try_except (get_menstrual_cycle_body env (resolve_date env date)) read_clauses"

definition MENSTRUAL_CALENDAR_URL :: string where
  "MENSTRUAL_CALENDAR_URL = ''/periodichealth-service/menstrualcycle/calendarupdates''"

definition strptime :: "env \<Rightarrow> string \<Rightarrow> exn + date" where
  "strptime env s =
     (case strptime_date s of
        None \<Rightarrow> Inl (ValueError (strptime_error env s))
      | Some d \<Rightarrow> Inr d)"

definition cycle_payload :: "env \<Rightarrow> string \<Rightarrow> string \<Rightarrow> string list \<Rightarrow> json" where
  "cycle_payload env start_date end_date cycle_dates =
     JDict
       [(''userProfilePk'', JInt (GARMIN_USER_PROFILE_PK env)),
        (''todayCalendarDate'', JStr (isoformat (today env))),
        (''startDate'', JStr start_date),
        (''endDate'', JStr end_date),
        (''futureEditsByFE'', JBool True),
        (''reportTimestamp'', JStr (take (length (now env) - 3) (now env))),
        (''cycleDatesLists'', JList [JList (map JStr cycle_dates)])]"

definition cycle_message :: "string \<Rightarrow> string \<Rightarrow> string list \<Rightarrow> string" where
  "cycle_message start_date end_date cycle_dates =
     ''Period logged: '' @ start_date @ '' to '' @ end_date @ '' ('' @
     decimal (length cycle_dates) @ '' days)''"

definition update_menstrual_cycle_body :: "env \<Rightarrow> string \<Rightarrow> string \<Rightarrow> json comp" where
  "update_menstrual_cycle_body env start_date end_date =
     cbind (get_client env) (\<lambda>garmin.
     cbind (lift (strptime env start_date)) (\<lambda>start.
     cbind (lift (strptime env end_date)) (\<lambda>end.
     if date_less end start then returns (failure ''end_date must be on or after start_date'')
     else
       cbind (lift (build_cycle_dates start end [])) (\<lambda>cycle_dates.
       cbind (call env (Request garmin (Garmin_connectapi MENSTRUAL_CALENDAR_URL ''POST''
                (cycle_payload env start_date end_date cycle_dates)))) (\<lambda>_.
       returns (JDict [(''success'', JBool True),
         (''message'', JStr (cycle_message start_date end_date cycle_dates)),
         (''dates'', JList (map JStr cycle_dates))]))))))"

definition update_menstrual_cycle :: "env \<Rightarrow> string \<Rightarrow> string \<Rightarrow> json comp" where
  "update_menstrual_cycle env start_date end_date =
     try_except (update_menstrual_cycle_body env start_date end_date) cycle_clauses"

definition get_hrv_body :: "env \<Rightarrow> string \<Rightarrow> json comp" where
  "get_hrv_body env cdate =
     cbind (get_client env) (\<lambda>garmin.
     cbind (call env (Request garmin (Garmin_get_hrv_data cdate))) (\<lambda>payload.
     returns (JDict [(''success'', JBool True), (''date'', JStr cdate), (''data'', payload)])))"

definition get_hrv :: "env \<Rightarrow> string option \<Rightarrow> json comp" where
  "get_hrv env date = try_except (get_hrv_body env (resolve_date env date)) read_clauses"

definition get_hydration_body :: "env \<Rightarrow> string \<Rightarrow> json comp" where
  "get_hydration_body env cdate =
     cbind (get_client env) (\<lambda>garmin.
     cbind (call env (Request garmin (Garmin_get_hydration_data cdate))) (\<lambda>payload.
     returns (JDict [(''success'', JBool True), (''date'', JStr cdate), (''data'', payload)])))"

definition get_hydration :: "env \<Rightarrow> string option \<Rightarrow> json comp" where
  "get_hydration env date = try_except (get_hydration_body env (resolve_date env date)) read_clauses"

text \<open>The float \<^verbatim>\<open>amount_ml\<close> is given by its \<^verbatim>\<open>repr\<close>, which is also what the f-string prints.\<close>

definition add_hydration_body :: "env \<Rightarrow> string \<Rightarrow> json comp" where
  "add_hydration_body env amount_ml =
     cbind (get_client env) (\<lambda>garmin.
     cbind (call env (Request garmin (Garmin_add_hydration_data amount_ml))) (\<lambda>result.
     returns (JDict [(''success'', JBool True), (''logged_ml'', JFloat amount_ml),
       (''message'', JStr (''Logged '' @ amount_ml @ ''ml of water'')), (''data'', result)])))"

definition add_hydration :: "env \<Rightarrow> string \<Rightarrow> json comp" where
  "add_hydration env amount_ml = try_except (add_hydration_body env amount_ml) read_clauses"

definition get_activities_body :: "env \<Rightarrow> int \<Rightarrow> json comp" where
  "get_activities_body env limit =
     cbind (get_client env) (\<lambda>garmin.
     cbind (call env (Request garmin (Garmin_get_activities 0 limit))) (\<lambda>activities.
     cbind (lift (py_len activities)) (\<lambda>n.
     returns (JDict [(''success'', JBool True), (''count'', JInt (int n)), (''data'', activities)]))))"

definition get_activities :: "env \<Rightarrow> int \<Rightarrow> json comp" where
  "get_activities env limit = try_except (get_activities_body env limit) read_clauses"

subsection \<open>The tool surface\<close>

datatype tool_call =
    Get_daily_summary "string option"
  | Get_body_battery "string option"
  | Get_sleep_data "string option"
  | Get_sleep_detail "string option"
  | Get_heart_rate "string option"
  | Get_resting_heart_rate "string option"
  | Get_stress "string option"
  | Get_steps "string option"
  | Get_menstrual_cycle "string option"
  | Update_menstrual_cycle string string
  | Get_hrv "string option"
  | Get_hydration "string option"
  | Add_hydration string
  | Get_activities int

fun run_tool :: "env \<Rightarrow> tool_call \<Rightarrow> json comp" where
  "run_tool env (Get_daily_summary d) = get_daily_summary env d"
| "run_tool env (Get_body_battery d) = get_body_battery env d"
| "run_tool env (Get_sleep_data d) = get_sleep_data env d"
| "run_tool env (Get_sleep_detail d) = get_sleep_detail env d"
| "run_tool env (Get_heart_rate d) = get_heart_rate env d"
| "run_tool env (Get_resting_heart_rate d) = get_resting_heart_rate env d"
| "run_tool env (Get_stress d) = get_stress env d"
| "run_tool env (Get_steps d) = get_steps env d"
| "run_tool env (Get_menstrual_cycle d) = get_menstrual_cycle env d"
| "run_tool env (Update_menstrual_cycle s e) = update_menstrual_cycle env s e"
| "run_tool env (Get_hrv d) = get_hrv env d"
| "run_tool env (Get_hydration d) = get_hydration env d"
| "run_tool env (Add_hydration a) = add_hydration env a"
| "run_tool env (Get_activities n) = get_activities env n"

text \<open>The \<^verbatim>\<open>try\<close> body that a tool call runs.\<close>

fun tool_body :: "env \<Rightarrow> tool_call \<Rightarrow> json comp" where
  "tool_body env (Get_daily_summary d) = get_daily_summary_body env (resolve_date env d)"
| "tool_body env (Get_body_battery d) = get_body_battery_body env (resolve_date env d)"
| "tool_body env (Get_sleep_data d) = get_sleep_data_body env (resolve_date env d)"
| "tool_body env (Get_sleep_detail d) = get_sleep_detail_body env (resolve_date env d)"
| "tool_body env (Get_heart_rate d) = get_heart_rate_body env (resolve_date env d)"
| "tool_body env (Get_resting_heart_rate d) = get_resting_heart_rate_body env (resolve_date env d)"
| "tool_body env (Get_stress d) = get_stress_body env (resolve_date env d)"
| "tool_body env (Get_steps d) = get_steps_body env (resolve_date env d)"
| "tool_body env (Get_menstrual_cycle d) = get_menstrual_cycle_body env (resolve_date env d)"
| "tool_body env (Update_menstrual_cycle s e) = update_menstrual_cycle_body env s e"
| "tool_body env (Get_hrv d) = get_hrv_body env (resolve_date env d)"
| "tool_body env (Get_hydration d) = get_hydration_body env (resolve_date env d)"
| "tool_body env (Add_hydration a) = add_hydration_body env a"
| "tool_body env (Get_activities n) = get_activities_body env n"

text \<open>Tool calls one after the other, each under the environment it meets.\<close>

fun run_tools :: "(env \<times> tool_call) list \<Rightarrow> world \<Rightarrow> (exn + json) list \<times> world" where
  "run_tools [] w = ([], w)"
| "run_tools ((env, c) # rest) w =
     (case run_tool env c w of
        (r, w') \<Rightarrow> (case run_tools rest w' of (rs, w'') \<Rightarrow> (r # rs, w'')))"

subsection \<open>Reading an envelope and a trace\<close>

definition keys :: "json \<Rightarrow> string list" where
  "keys j = (case j of JDict items \<Rightarrow> map fst items | _ \<Rightarrow> [])"

definition field :: "json \<Rightarrow> string \<Rightarrow> json option" where
  "field j k = (case j of JDict items \<Rightarrow> map_of items k | _ \<Rightarrow> None)"

fun is_login :: "event \<Rightarrow> bool" where
  "is_login Login_tokenstore = True"
| "is_login (Login_credentials _ _) = True"
| "is_login Garth_dump = True"
| "is_login (Request _ _) = False"

fun is_request :: "event \<Rightarrow> bool" where
  "is_request (Request _ _) = True"
| "is_request _ = False"

fun is_credential_login :: "event \<Rightarrow> bool" where
  "is_credential_login (Login_credentials _ _) = True"
| "is_credential_login _ = False"

section \<open>Sample environments\<close>

text \<open>Concrete environments and states on which the properties below are run.\<close>

definition respond_ok :: "event list \<Rightarrow> event \<Rightarrow> exn + json" where
  "respond_ok history ev = Inr JNull"

definition sample_today :: date where
  "sample_today = \<lparr>year = 2024, month = 1, day = 15\<rparr>"

definition sample_env ::
  "bool \<Rightarrow> string option \<Rightarrow> string option \<Rightarrow> (event list \<Rightarrow> event \<Rightarrow> exn + json) \<Rightarrow> env" where
  "sample_env token_store email password answers =
     \<lparr>respond = answers,
      path_exists_TOKENSTORE = (\<lambda>history. token_store),
      GARMIN_EMAIL = email,
      GARMIN_PASSWORD = password,
      GARMIN_USER_PROFILE_PK = 0,
      today = sample_today,
      now = ''2024-01-15T10:30:00.123456'',
      strptime_error = (\<lambda>s. ''time data does not match format'')\<rparr>"

definition world0 :: world where
  "world0 = \<lparr>client = None, trace = []\<rparr>"

definition world1 :: world where
  "world1 = \<lparr>client = Some Token_session, trace = []\<rparr>"

definition respond_rate_limited :: "event list \<Rightarrow> event \<Rightarrow> exn + json" where
  "respond_rate_limited history ev = Inl (GarminConnectTooManyRequestsError ''Too many requests'')"

definition respond_dump_fails :: "event list \<Rightarrow> event \<Rightarrow> exn + json" where
  "respond_dump_fails history ev =
     (case ev of Garth_dump \<Rightarrow> Inl (OtherException ''Permission denied'') | _ \<Rightarrow> Inr JNull)"

definition world_logged_in :: world where
  "world_logged_in = \<lparr>client = Some Token_session, trace = [Login_tokenstore, Garth_dump]\<rparr>"

definition world_stress_asked :: world where
  "world_stress_asked =
     \<lparr>client = Some Token_session,
      trace = [Request Token_session (Garmin_get_stress_data ''2024-01-15'')]\<rparr>"

definition world_dump_failed :: world where
  "world_dump_failed =
     \<lparr>client = None,
      trace = [Login_tokenstore, Garth_dump,
        Login_credentials ''anne@example.org'' ''secret'', Garth_dump]\<rparr>"

section \<open>Vocabulary of the envelope and projection properties\<close>

text \<open>The keys of the dictionary that each handler returns at the end of its \<^verbatim>\<open>try\<close> body.\<close>

fun success_keys :: "tool_call \<Rightarrow> string list" where
  "success_keys (Get_body_battery _) = [''success'', ''date'', ''battery'', ''events'']"
| "success_keys (Update_menstrual_cycle _ _) = [''success'', ''message'', ''dates'']"
| "success_keys (Add_hydration _) = [''success'', ''logged_ml'', ''message'', ''data'']"
| "success_keys (Get_activities _) = [''success'', ''count'', ''data'']"
| "success_keys _ = [''success'', ''date'', ''data'']"



definition world_battery_asked :: world where
  "world_battery_asked =
     \<lparr>client = Some Token_session,
      trace = [Request Token_session (Garmin_get_body_battery ''2024-01-15''),
        Request Token_session (Garmin_get_body_battery_events ''2024-01-15'')]\<rparr>"



definition world_sleep_asked :: world where
  "world_sleep_asked =
     \<lparr>client = Some Token_session,
      trace = [Request Token_session (Garmin_get_sleep_data ''2024-01-15'')]\<rparr>"

text \<open>The last date that \<^verbatim>\<open>datetime.date\<close> can hold, \<^verbatim>\<open>date.max\<close>.\<close>

definition date_max :: date where
  "date_max = \<lparr>year = MAXYEAR, month = 12, day = 31\<rparr>"

section \<open>Properties\<close>

subsection \<open>Auxiliary facts\<close>

lemmas body_defs = get_daily_summary_body_def get_body_battery_body_def get_sleep_data_body_def
  get_sleep_detail_body_def get_heart_rate_body_def get_resting_heart_rate_body_def
  get_stress_body_def get_steps_body_def get_menstrual_cycle_body_def
  update_menstrual_cycle_body_def get_hrv_body_def get_hydration_body_def add_hydration_body_def
  get_activities_body_def

lemmas handler_defs = get_daily_summary_def get_body_battery_def get_sleep_data_def
  get_sleep_detail_def get_heart_rate_def get_resting_heart_rate_def
  get_stress_def get_steps_def get_menstrual_cycle_def
  update_menstrual_cycle_def get_hrv_def get_hydration_def add_hydration_def
  get_activities_def

lemma get_client_cached: "client w = Some s \<Longrightarrow> get_client env w = (Inr s, w)"
  by (simp add: get_client_def)


lemma read_clauses_catch:
  "\<exists>msg. first_match (\<lambda>clause. clause e) read_clauses = Some (failure msg)"
  by (cases e) (auto simp: read_clauses_def except_Exception_def)

lemma cycle_clauses_catch:
  "\<exists>msg. first_match (\<lambda>clause. clause e) cycle_clauses = Some (failure msg)"
  by (cases e) (auto simp: cycle_clauses_def except_Exception_def)

lemma credential_fallback_absent:
  "GARMIN_EMAIL env = None \<or> GARMIN_PASSWORD env = None \<Longrightarrow> credential_fallback env w = (None, w)"
  by (auto simp: credential_fallback_def truthy_def)

lemma init_client_nothing:
  "\<not> path_exists_TOKENSTORE env (trace w) \<Longrightarrow>
   GARMIN_EMAIL env = None \<or> GARMIN_PASSWORD env = None \<Longrightarrow> init_client env w = (None, w)"
  by (simp add: init_client_def credential_fallback_absent)

lemma get_client_nothing:
  "\<not> path_exists_TOKENSTORE env (trace w) \<Longrightarrow>
   GARMIN_EMAIL env = None \<or> GARMIN_PASSWORD env = None \<Longrightarrow> client w = None \<Longrightarrow>
   get_client env w = (Inl (ConnectionError not_authenticated), w)"
  by (simp add: get_client_def init_client_nothing)

lemma tool_body_no_session:
  "get_client env w = (Inl e, w1) \<Longrightarrow> tool_body env c w = (Inl e, w1)"
  by (cases c) (simp_all add: body_defs cbind_def)

lemma run_tool_try:
  "run_tool env c =
     try_except (tool_body env c)
       (case c of Update_menstrual_cycle _ _ \<Rightarrow> cycle_clauses | _ \<Rightarrow> read_clauses)"
  by (cases c) (simp_all add: handler_defs)

lemma run_tool_no_session:
  "get_client env w = (Inl (ConnectionError msg), w1) \<Longrightarrow>
   run_tool env c w = (Inr (failure msg), w1)"
proof -
  assume "get_client env w = (Inl (ConnectionError msg), w1)"
  then have b: "tool_body env c w = (Inl (ConnectionError msg), w1)"
    by (rule tool_body_no_session)
  show ?thesis
    unfolding run_tool_try try_except_def b
    by (cases c) (simp_all add: read_clauses_def cycle_clauses_def)
qed

subsection \<open>Nothing to authenticate with\<close>

text \<open>
  Claim C7. When the token store path does not exist and the email or the password variable
  is absent, \<open>init_client\<close> calls nothing (the state, with its trace of calls, is unchanged)
  and returns \<open>None\<close>; with no session cached, \<open>get_client\<close> then raises the
  "Not authenticated" \<open>ConnectionError\<close>, and every handler returns the envelope
  \<open>{success: False, error: ...}\<close> with that message, again without any call.
\<close>

theorem no_token_store_no_credentials:
  assumes "\<not> path_exists_TOKENSTORE env (trace w)"
    and "GARMIN_EMAIL env = None \<or> GARMIN_PASSWORD env = None"
  shows "init_client env w = (None, w) \<and>
    (client w = None \<longrightarrow>
       get_client env w =
         (Inl (ConnectionError ''Not authenticated. Run auth.py to set up Garmin credentials.''), w) \<and>
       (\<forall>c. run_tool env c w =
          (Inr (JDict [(''success'', JBool False),
             (''error'', JStr ''Not authenticated. Run auth.py to set up Garmin credentials.'')]), w)))"
proof -
  have "init_client env w = (None, w) \<and>
    (client w = None \<longrightarrow>
       get_client env w = (Inl (ConnectionError not_authenticated), w) \<and>
       (\<forall>c. run_tool env c w = (Inr (failure not_authenticated), w)))"
    using assms by (auto simp: init_client_nothing get_client_nothing run_tool_no_session)
  then show ?thesis
    by (simp add: failure_def not_authenticated_def)
qed

theorem no_token_store_no_credentials_witness:
  "\<not> path_exists_TOKENSTORE (sample_env False (Some ''anne@example.org'') None respond_ok) (trace world0) \<and>
   GARMIN_PASSWORD (sample_env False (Some ''anne@example.org'') None respond_ok) = None \<and>
   client world0 = None \<and>
   init_client (sample_env False (Some ''anne@example.org'') None respond_ok) world0 = (None, world0) \<and>
   get_client (sample_env False (Some ''anne@example.org'') None respond_ok) world0 =
     (Inl (ConnectionError ''Not authenticated. Run auth.py to set up Garmin credentials.''), world0) \<and>
   run_tool (sample_env False (Some ''anne@example.org'') None respond_ok) (Get_steps None) world0 =
     (Inr (JDict [(''success'', JBool False),
        (''error'', JStr ''Not authenticated. Run auth.py to set up Garmin credentials.'')]), world0)"
proof -
  let ?env = "sample_env False (Some ''anne@example.org'') None respond_ok"
  have h1: "\<not> path_exists_TOKENSTORE ?env (trace world0)"
    by (simp add: sample_env_def)
  have h2: "GARMIN_PASSWORD ?env = None"
    by (simp add: sample_env_def)
  have h3: "client world0 = None"
    by (simp add: world0_def)
  from h2 have h2': "GARMIN_EMAIL ?env = None \<or> GARMIN_PASSWORD ?env = None" ..
  show ?thesis
    using no_token_store_no_credentials [OF h1 h2'] h1 h2 h3 by blast
qed

lemma run_tool_cached:
  "client w = Some s \<Longrightarrow> run_tool env c w = (r, w') \<Longrightarrow>
   client w' = Some s \<and> filter is_login (trace w') = filter is_login (trace w)"
  by (cases c)
    (auto simp: handler_defs body_defs try_except_def cbind_def get_client_cached call_def
      returns_def lift_def split: prod.splits sum.splits option.splits if_splits)

lemma run_tools_cached:
  "client w = Some s \<Longrightarrow>
   client (snd (run_tools calls w)) = Some s \<and>
   filter is_login (trace (snd (run_tools calls w))) = filter is_login (trace w)"
proof (induction calls arbitrary: w)
  case Nil
  then show ?case by simp
next
  case (Cons a calls)
  obtain env c where a: "a = (env, c)" by (cases a)
  obtain r w' where r: "run_tool env c w = (r, w')" by (cases "run_tool env c w")
  from run_tool_cached [OF Cons.prems r]
  have c: "client w' = Some s" and t: "filter is_login (trace w') = filter is_login (trace w)"
    by simp_all
  from Cons.IH [OF c] show ?case
    by (auto simp: a r t split: prod.splits)
qed

subsection \<open>The cached session\<close>

text \<open>
  Claim C6. Once the module-level \<open>client\<close> holds a session, \<open>get_client\<close> returns that
  session and leaves the state as it is: the branch that calls \<open>init_client\<close> is not taken
  and nothing is added to the trace of library calls. After any sequence of handler
  invocations the same session is still cached, and the logins and token dumps on the
  trace are those that were there before: no handler authenticates again.
\<close>

theorem cached_session_reused:
  assumes "client w = Some s"
  shows "get_client env w = (Inr s, w) \<and>
    (\<forall>calls. client (snd (run_tools calls w)) = Some s \<and>
       filter is_login (trace (snd (run_tools calls w))) = filter is_login (trace w))"
  using assms by (simp add: get_client_cached run_tools_cached)

theorem cached_session_reused_witness:
  "client world1 = Some Token_session \<and>
   get_client (sample_env True None None respond_ok) world1 = (Inr Token_session, world1) \<and>
   client (snd (run_tools
     [(sample_env True None None respond_ok, Get_steps None),
      (sample_env False None None respond_ok, Get_activities 5)] world1)) = Some Token_session \<and>
   filter is_login (trace (snd (run_tools
     [(sample_env True None None respond_ok, Get_steps None),
      (sample_env False None None respond_ok, Get_activities 5)] world1))) =
   filter is_login (trace world1)"
proof -
  have h: "client world1 = Some Token_session"
    by (simp add: world1_def)
  show ?thesis
    using cached_session_reused [OF h, of "sample_env True None None respond_ok"] h by blast
qed

subsection \<open>The empty date string\<close>


subsection \<open>No exception leaves a handler\<close>

lemma iso_today: "isoformat sample_today = ''2024-01-15''"
  by code_simp

text \<open>
  Claim C4. Whatever the environment answers and whatever the state is, a handler returns a
  value and raises nothing; and whenever its \<^verbatim>\<open>try\<close> body raises an exception (the
  \<open>ConnectionError\<close> of \<open>get_client\<close>, an error of the client library, a \<open>ValueError\<close> of the
  date parser, or any other exception), the value returned is the envelope
  \<open>{success: False, error: msg}\<close> with a string message, in the state the body left.
\<close>

theorem handlers_never_raise:
  "\<exists>j w'. run_tool env c w = (Inr j, w') \<and>
     (\<forall>e w1. tool_body env c w = (Inl e, w1) \<longrightarrow>
        w' = w1 \<and> (\<exists>msg. j = JDict [(''success'', JBool False), (''error'', JStr msg)]))"
proof (cases "tool_body env c w")
  case (Pair r w1)
  show ?thesis
  proof (cases r)
    case (Inl e)
    obtain m1 where m1: "first_match (\<lambda>clause. clause e) read_clauses = Some (failure m1)"
      using read_clauses_catch by blast
    obtain m2 where m2: "first_match (\<lambda>clause. clause e) cycle_clauses = Some (failure m2)"
      using cycle_clauses_catch by blast
    show ?thesis
      unfolding run_tool_try try_except_def Pair Inl
      by (cases c) (auto simp: m1 m2 failure_def)
  next
    case (Inr v)
    show ?thesis
      unfolding run_tool_try try_except_def Pair Inr by simp
  qed
qed

theorem handlers_never_raise_witness:
  "tool_body (sample_env False None None respond_rate_limited) (Get_stress None) world1 =
     (Inl (GarminConnectTooManyRequestsError ''Too many requests''), world_stress_asked) \<and>
   (\<exists>msg. run_tool (sample_env False None None respond_rate_limited) (Get_stress None) world1 =
     (Inr (JDict [(''success'', JBool False), (''error'', JStr msg)]), world_stress_asked))"
proof -
  let ?env = "sample_env False None None respond_rate_limited"
  have b: "tool_body ?env (Get_stress None) world1 =
     (Inl (GarminConnectTooManyRequestsError ''Too many requests''), world_stress_asked)"
    by (simp add: get_stress_body_def resolve_date_def truthy_def sample_env_def world1_def
        cbind_def get_client_def call_def respond_rate_limited_def iso_today
        world_stress_asked_def)
  from handlers_never_raise [of ?env "Get_stress None" world1]
  obtain j w' where r: "run_tool ?env (Get_stress None) world1 = (Inr j, w')"
    and h: "\<forall>e w1. tool_body ?env (Get_stress None) world1 = (Inl e, w1) \<longrightarrow>
       w' = w1 \<and> (\<exists>msg. j = JDict [(''success'', JBool False), (''error'', JStr msg)])"
    by (elim exE conjE)
  from h b have "w' = world_stress_asked \<and>
      (\<exists>msg. j = JDict [(''success'', JBool False), (''error'', JStr msg)])"
    by (elim allE impE) assumption
  with r b show ?thesis
    by (elim conjE exE) simp
qed

subsection \<open>Token authentication\<close>

text \<open>
  Claim C5, as stated, fails: the \<^verbatim>\<open>try\<close> block of the token path covers the login and the
  dump of the tokens alike. With a token store, a token login that succeeds and a dump that
  raises, \<open>init_client\<close> goes on to the credential path and logs in with email and password.
\<close>

theorem token_dump_failure_counterexample:
  "path_exists_TOKENSTORE
     (sample_env True (Some ''anne@example.org'') (Some ''secret'') respond_dump_fails)
     (trace world0) \<and>
   respond (sample_env True (Some ''anne@example.org'') (Some ''secret'') respond_dump_fails)
     (trace world0) Login_tokenstore = Inr JNull \<and>
   init_client (sample_env True (Some ''anne@example.org'') (Some ''secret'') respond_dump_fails)
     world0 = (None, world_dump_failed) \<and>
   Login_credentials ''anne@example.org'' ''secret'' \<in> set (trace world_dump_failed)"
  by (simp add: sample_env_def world0_def world_dump_failed_def respond_dump_fails_def
      init_client_def token_login_def credential_fallback_def credential_login_def
      cbind_def call_def truthy_def)

text \<open>
  Claim C5, amended. When the token store path exists and both the token login and the dump
  of the tokens return, \<open>init_client\<close> makes exactly these two calls, the login first and the
  dump second, makes no credential login, then caches the session and returns it.
\<close>

theorem token_login_and_dump:
  assumes "path_exists_TOKENSTORE env (trace w)"
    and "respond env (trace w) Login_tokenstore = Inr a"
    and "respond env (trace w @ [Login_tokenstore]) Garth_dump = Inr b"
  shows "init_client env w =
     (Some Token_session,
      w\<lparr>trace := trace w @ [Login_tokenstore, Garth_dump], client := Some Token_session\<rparr>) \<and>
     filter is_credential_login (trace (snd (init_client env w))) =
       filter is_credential_login (trace w)"
  using assms by (simp add: init_client_def token_login_def cbind_def call_def)

theorem token_login_and_dump_witness:
  "path_exists_TOKENSTORE (sample_env True None None respond_ok) (trace world0) \<and>
   respond (sample_env True None None respond_ok) (trace world0) Login_tokenstore = Inr JNull \<and>
   respond (sample_env True None None respond_ok) (trace world0 @ [Login_tokenstore]) Garth_dump =
     Inr JNull \<and>
   init_client (sample_env True None None respond_ok) world0 =
     (Some Token_session, world_logged_in)"
proof -
  let ?env = "sample_env True None None respond_ok"
  have h1: "path_exists_TOKENSTORE ?env (trace world0)"
    by (simp add: sample_env_def)
  have h2: "respond ?env (trace world0) Login_tokenstore = Inr JNull"
    by (simp add: sample_env_def respond_ok_def)
  have h3: "respond ?env (trace world0 @ [Login_tokenstore]) Garth_dump = Inr JNull"
    by (simp add: sample_env_def respond_ok_def)
  have w: "world0\<lparr>trace := trace world0 @ [Login_tokenstore, Garth_dump],
      client := Some Token_session\<rparr> = world_logged_in"
    by (simp add: world0_def world_logged_in_def)
  show ?thesis
    using token_login_and_dump [OF h1 h2 h3] h1 h2 h3 by (simp add: w)
qed

subsection \<open>Validation in \<^verbatim>\<open>update_menstrual_cycle\<close>\<close>

lemma token_login_no_request:
  "filter is_request (trace (snd (token_login env w))) = filter is_request (trace w)"
  by (simp add: token_login_def cbind_def call_def split: prod.splits sum.splits)

lemma credential_login_no_request:
  "filter is_request (trace (snd (credential_login env e p w))) = filter is_request (trace w)"
  by (simp add: credential_login_def cbind_def call_def split: prod.splits sum.splits)

lemma credential_fallback_no_request:
  "filter is_request (trace (snd (credential_fallback env w))) = filter is_request (trace w)"
  using credential_login_no_request [of env "the (GARMIN_EMAIL env)" "the (GARMIN_PASSWORD env)" w]
  by (auto simp: credential_fallback_def Let_def split: prod.splits sum.splits)

lemma init_client_no_request:
  "filter is_request (trace (snd (init_client env w))) = filter is_request (trace w)"
proof (cases "path_exists_TOKENSTORE env (trace w)")
  case False
  then show ?thesis by (simp add: init_client_def credential_fallback_no_request)
next
  case True
  obtain r w' where t: "token_login env w = (r, w')" by (cases "token_login env w")
  from token_login_no_request [of env w] t
  have w': "filter is_request (trace w') = filter is_request (trace w)" by simp
  show ?thesis
    using True w' credential_fallback_no_request [of env w']
    by (cases r) (simp_all add: init_client_def t)
qed

lemma get_client_no_request:
  "filter is_request (trace (snd (get_client env w))) = filter is_request (trace w)"
  by (auto simp: get_client_def Let_def init_client_no_request split: option.splits)

lemma get_client_error:
  "fst (get_client env w) = Inl e \<Longrightarrow> e = ConnectionError not_authenticated"
  by (auto simp: get_client_def Let_def split: option.splits)

lemma update_no_session:
  assumes "get_client env w = (Inl e, w1)"
  shows "update_menstrual_cycle env start_date end_date w = (Inr (failure not_authenticated), w1)"
proof -
  from assms have "fst (get_client env w) = Inl e" by simp
  then have e: "e = ConnectionError not_authenticated" by (rule get_client_error)
  show ?thesis
    using assms
    by (simp add: update_menstrual_cycle_def update_menstrual_cycle_body_def try_except_def
        cbind_def cycle_clauses_def e)
qed

lemma update_unparseable:
  assumes "get_client env w = (Inr g, w1)"
    and "strptime_date start_date = None \<or> strptime_date end_date = None"
  shows "update_menstrual_cycle env start_date end_date w =
     (Inr (failure (''Invalid date format: '' @
        strptime_error env (if strptime_date start_date = None then start_date else end_date))), w1)"
  using assms
  by (auto simp: update_menstrual_cycle_def update_menstrual_cycle_body_def try_except_def
      cbind_def cycle_clauses_def lift_def strptime_def split: option.splits)

lemma update_end_before_start:
  assumes "get_client env w = (Inr g, w1)"
    and "strptime_date start_date = Some start"
    and "strptime_date end_date = Some end'"
    and "date_less end' start"
  shows "update_menstrual_cycle env start_date end_date w =
     (Inr (failure ''end_date must be on or after start_date''), w1)"
  using assms
  by (simp add: update_menstrual_cycle_def update_menstrual_cycle_body_def try_except_def
      cbind_def lift_def strptime_def returns_def)

lemma parse_bad: "strptime_date ''not-a-date'' = None"
  by code_simp

lemma parse_0103: "strptime_date ''2024-01-03'' = Some \<lparr>year = 2024, month = 1, day = 3\<rparr>"
  by code_simp

lemma parse_0105: "strptime_date ''2024-01-05'' = Some \<lparr>year = 2024, month = 1, day = 5\<rparr>"
  by code_simp

lemma parse_0101: "strptime_date ''2024-01-01'' = Some \<lparr>year = 2024, month = 1, day = 1\<rparr>"
  by code_simp

lemma get_client_world0_token:
  "get_client (sample_env True None None respond_ok) world0 = (Inr Token_session, world_logged_in)"
  by (simp add: get_client_def init_client_def token_login_def cbind_def call_def
      sample_env_def respond_ok_def world0_def world_logged_in_def)

text \<open>
  Claim C1, as stated, fails: \<open>update_menstrual_cycle\<close> calls \<open>get_client\<close> first and parses
  the dates afterwards. Started with no session and a token store, the call with the start
  date \<open>not-a-date\<close> logs in and dumps the tokens before it reports the invalid date.
\<close>

theorem validation_after_session_counterexample:
  "strptime_date ''not-a-date'' = None \<and>
   update_menstrual_cycle (sample_env True None None respond_ok) ''not-a-date'' ''2024-01-03'' world0 =
     (Inr (JDict [(''success'', JBool False),
        (''error'', JStr ''Invalid date format: time data does not match format'')]),
      world_logged_in) \<and>
   trace world0 = [] \<and>
   trace world_logged_in = [Login_tokenstore, Garth_dump]"
  using update_unparseable [OF get_client_world0_token, of "''not-a-date''" "''2024-01-03''"]
  by (simp add: parse_bad sample_env_def world0_def world_logged_in_def failure_def)

text \<open>
  Claim C1, amended. When one of the two strings does not parse, the handler first obtains
  the session with \<open>get_client\<close> (which authenticates when none is cached). If that fails,
  it returns the "Not authenticated" failure envelope; otherwise it returns the failure
  envelope "Invalid date format: ..." with the parser's message for the first string that
  does not parse. In both cases the state is the one \<open>get_client\<close> left and no data
  request was sent to the remote service.
\<close>

theorem unparseable_date_rejected:
  assumes "strptime_date start_date = None \<or> strptime_date end_date = None"
  shows "\<exists>msg. update_menstrual_cycle env start_date end_date w =
       (Inr (JDict [(''success'', JBool False), (''error'', JStr msg)]),
        snd (get_client env w)) \<and>
     (case fst (get_client env w) of
        Inl e \<Rightarrow> msg = ''Not authenticated. Run auth.py to set up Garmin credentials.''
      | Inr garmin \<Rightarrow>
          msg = ''Invalid date format: '' @
            strptime_error env (if strptime_date start_date = None then start_date else end_date)) \<and>
     filter is_request (trace (snd (get_client env w))) = filter is_request (trace w)"
proof (cases "get_client env w")
  case (Pair r w1)
  show ?thesis
  proof (cases r)
    case (Inl e)
    with Pair have g: "get_client env w = (Inl e, w1)" by simp
    from update_no_session [OF g] get_client_no_request [of env w] show ?thesis
      by (simp add: g failure_def not_authenticated_def)
  next
    case (Inr garmin)
    with Pair have g: "get_client env w = (Inr garmin, w1)" by simp
    from update_unparseable [OF g assms] get_client_no_request [of env w] show ?thesis
      by (simp add: g failure_def)
  qed
qed

theorem unparseable_date_rejected_witness:
  "strptime_date ''not-a-date'' = None \<and>
   (\<exists>msg. update_menstrual_cycle (sample_env False None None respond_ok)
       ''not-a-date'' ''2024-01-03'' world1 =
       (Inr (JDict [(''success'', JBool False), (''error'', JStr msg)]), world1) \<and>
     msg = ''Invalid date format: time data does not match format'')"
proof -
  let ?env = "sample_env False None None respond_ok"
  have h: "strptime_date ''not-a-date'' = None \<or> strptime_date ''2024-01-03'' = None"
    by (simp add: parse_bad)
  have g: "get_client ?env world1 = (Inr Token_session, world1)"
    by (simp add: get_client_cached world1_def)
  have se: "strptime_error ?env ''not-a-date'' = ''time data does not match format''"
    by (simp add: sample_env_def)
  from unparseable_date_rejected [OF h, of ?env world1]
  obtain msg where
    u: "update_menstrual_cycle ?env ''not-a-date'' ''2024-01-03'' world1 =
       (Inr (JDict [(''success'', JBool False), (''error'', JStr msg)]),
        snd (get_client ?env world1))"
    and m: "(case fst (get_client ?env world1) of
        Inl e \<Rightarrow> msg = ''Not authenticated. Run auth.py to set up Garmin credentials.''
      | Inr garmin \<Rightarrow>
          msg = ''Invalid date format: '' @
            strptime_error ?env
              (if strptime_date ''not-a-date'' = None then ''not-a-date'' else ''2024-01-03''))"
    by blast
  from m have "msg = ''Invalid date format: time data does not match format''"
    by (simp add: g parse_bad se)
  with u show ?thesis
    by (simp add: g parse_bad)
qed

text \<open>
  Claim C8, as stated, fails: the order of the dates is checked after \<open>get_client\<close>. With
  no session, no token store and no credentials, the call with the end date before the
  start date returns the "Not authenticated" envelope, not the one of the range check.
\<close>

theorem range_check_after_session_counterexample:
  "strptime_date ''2024-01-05'' = Some \<lparr>year = 2024, month = 1, day = 5\<rparr> \<and>
   strptime_date ''2024-01-01'' = Some \<lparr>year = 2024, month = 1, day = 1\<rparr> \<and>
   date_less \<lparr>year = 2024, month = 1, day = 1\<rparr> \<lparr>year = 2024, month = 1, day = 5\<rparr> \<and>
   update_menstrual_cycle (sample_env False None None respond_ok) ''2024-01-05'' ''2024-01-01''
     world0 =
     (Inr (JDict [(''success'', JBool False),
        (''error'', JStr ''Not authenticated. Run auth.py to set up Garmin credentials.'')]), world0)"
proof -
  let ?env = "sample_env False None None respond_ok"
  have g: "get_client ?env world0 = (Inl (ConnectionError not_authenticated), world0)"
    by (rule get_client_nothing) (simp_all add: sample_env_def world0_def)
  have h: "date_less \<lparr>year = 2024, month = 1, day = 1\<rparr> \<lparr>year = 2024, month = 1, day = 5\<rparr>"
    by (simp add: date_less_def)
  from update_no_session [OF g, of "''2024-01-05''" "''2024-01-01''"] h show ?thesis
    by (simp add: parse_0105 parse_0101 failure_def not_authenticated_def)
qed

text \<open>
  Claim C8, amended. When both strings parse and the end date precedes the start date, the
  handler first obtains the session with \<open>get_client\<close>. If that fails, it returns the
  envelope \<open>{success: False, error: "Not authenticated. ..."}\<close>; otherwise it returns
  \<open>{success: False, error: "end_date must be on or after start_date"}\<close>. In both cases the
  state is the one \<open>get_client\<close> left, whose trace holds no request that was not there
  before: no write call is sent.
\<close>

theorem end_before_start_rejected:
  assumes "strptime_date start_date = Some start"
    and "strptime_date end_date = Some end'"
    and "date_less end' start"
  shows "\<exists>msg. update_menstrual_cycle env start_date end_date w =
       (Inr (JDict [(''success'', JBool False), (''error'', JStr msg)]),
        snd (get_client env w)) \<and>
     (case fst (get_client env w) of
        Inl e \<Rightarrow> msg = ''Not authenticated. Run auth.py to set up Garmin credentials.''
      | Inr garmin \<Rightarrow> msg = ''end_date must be on or after start_date'') \<and>
     filter is_request (trace (snd (get_client env w))) = filter is_request (trace w)"
proof (cases "get_client env w")
  case (Pair r w1)
  show ?thesis
  proof (cases r)
    case (Inl e)
    with Pair have g: "get_client env w = (Inl e, w1)" by simp
    from update_no_session [OF g] get_client_no_request [of env w] show ?thesis
      by (simp add: g failure_def not_authenticated_def)
  next
    case (Inr garmin)
    with Pair have g: "get_client env w = (Inr garmin, w1)" by simp
    from update_end_before_start [OF g assms] get_client_no_request [of env w] show ?thesis
      by (simp add: g failure_def)
  qed
qed

theorem end_before_start_rejected_witness:
  "strptime_date ''2024-01-05'' = Some \<lparr>year = 2024, month = 1, day = 5\<rparr> \<and>
   strptime_date ''2024-01-01'' = Some \<lparr>year = 2024, month = 1, day = 1\<rparr> \<and>
   date_less \<lparr>year = 2024, month = 1, day = 1\<rparr> \<lparr>year = 2024, month = 1, day = 5\<rparr> \<and>
   update_menstrual_cycle (sample_env False None None respond_ok) ''2024-01-05'' ''2024-01-01'' world1 =
     (Inr (JDict [(''success'', JBool False),
        (''error'', JStr ''end_date must be on or after start_date'')]), world1)"
proof -
  let ?env = "sample_env False None None respond_ok"
  have h: "date_less \<lparr>year = 2024, month = 1, day = 1\<rparr> \<lparr>year = 2024, month = 1, day = 5\<rparr>"
    by (simp add: date_less_def)
  have g: "get_client ?env world1 = (Inr Token_session, world1)"
    by (simp add: get_client_cached world1_def)
  show ?thesis
    using end_before_start_rejected [OF parse_0105 parse_0101 h, of ?env world1] h
    by (simp add: g parse_0105 parse_0101)
qed

subsection \<open>The shape of the envelope\<close>

lemma run_tool_cases:
  "(\<exists>v w'. tool_body env c w = (Inr v, w') \<and> run_tool env c w = (Inr v, w')) \<or>
   (\<exists>e w' msg. tool_body env c w = (Inl e, w') \<and> run_tool env c w = (Inr (failure msg), w'))"
proof (cases "tool_body env c w")
  case (Pair r w1)
  show ?thesis
  proof (cases r)
    case (Inl e)
    obtain m1 where m1: "first_match (\<lambda>clause. clause e) read_clauses = Some (failure m1)"
      using read_clauses_catch by blast
    obtain m2 where m2: "first_match (\<lambda>clause. clause e) cycle_clauses = Some (failure m2)"
      using cycle_clauses_catch by blast
    show ?thesis
      unfolding run_tool_try try_except_def Pair Inl
      by (cases c) (auto simp: m1 m2)
  next
    case (Inr v)
    show ?thesis
      unfolding run_tool_try try_except_def Pair Inr by simp
  qed
qed

lemma tool_body_shape:
  "tool_body env c w = (Inr j, w') \<Longrightarrow>
   (\<exists>msg. j = failure msg) \<or> (field j ''success'' = Some (JBool True) \<and> keys j = success_keys c)"
  by (cases c)
    (auto simp: body_defs cbind_def returns_def lift_def keys_def field_def
      split: prod.splits sum.splits if_splits)

text \<open>
  Claim C2, as stated, fails: the success dictionary of \<open>get_body_battery\<close> carries its
  payload under the keys \<open>battery\<close> and \<open>events\<close> and has no key \<open>data\<close>.
\<close>

theorem body_battery_envelope_counterexample:
  "get_body_battery (sample_env False None None respond_ok) None world1 =
     (Inr (JDict [(''success'', JBool True), (''date'', JStr ''2024-01-15''),
        (''battery'', JNull), (''events'', JNull)]), world_battery_asked) \<and>
   field (JDict [(''success'', JBool True), (''date'', JStr ''2024-01-15''),
        (''battery'', JNull), (''events'', JNull)]) ''data'' = None"
  by (simp add: get_body_battery_def get_body_battery_body_def try_except_def cbind_def
      returns_def get_client_def call_def resolve_date_def truthy_def sample_env_def
      respond_ok_def world1_def world_battery_asked_def iso_today field_def)

text \<open>
  Claim C2, amended. Each of the fourteen handlers returns a dictionary. On failure it is
  exactly \<open>{success: False, error: msg}\<close> with a string message. On success \<open>success\<close> is
  \<open>True\<close> and the other keys are fixed per handler: \<open>date, data\<close> for the ten readers of one
  date, \<open>date, battery, events\<close> for \<open>get_body_battery\<close>, \<open>message, dates\<close> for
  \<open>update_menstrual_cycle\<close>, \<open>logged_ml, message, data\<close> for \<open>add_hydration\<close> and
  \<open>count, data\<close> for \<open>get_activities\<close>.
\<close>

theorem envelope_shapes:
  "\<exists>j w'. run_tool env c w = (Inr j, w') \<and>
     ((\<exists>msg. j = JDict [(''success'', JBool False), (''error'', JStr msg)]) \<or>
      (field j ''success'' = Some (JBool True) \<and> keys j = success_keys c))"
proof -
  from run_tool_cases [of env c w] show ?thesis
  proof (elim disjE exE conjE)
    fix v w'
    assume b: "tool_body env c w = (Inr v, w')" and r: "run_tool env c w = (Inr v, w')"
    from tool_body_shape [OF b] r show ?thesis
      by (auto simp: failure_def)
  next
    fix e w' msg
    assume r: "run_tool env c w = (Inr (failure msg), w')"
    then show ?thesis
      by (simp add: failure_def)
  qed
qed

subsection \<open>The sleep summary\<close>











subsection \<open>The dates of a cycle\<close>

lemma days_in_month_bounds: "28 \<le> days_in_month y m \<and> days_in_month y m \<le> 31"
  by (simp add: days_in_month_def)

lemma date_le_trans: "date_le a b \<Longrightarrow> date_le b c \<Longrightarrow> date_le a c"
  by (auto simp: date_le_def)

lemma date_le_iff: "date_le a b \<longleftrightarrow> a = b \<or> date_less a b"
  by (cases a; cases b) (auto simp: date_le_def date_less_def)

lemma date_le_max: "valid_date d \<Longrightarrow> date_le d date_max"
  using days_in_month_bounds [of "year d" "month d"]
  by (auto simp: valid_date_def date_le_def date_max_def)

lemma date_max_top: "valid_date e \<Longrightarrow> date_le date_max e \<Longrightarrow> e = date_max"
  using days_in_month_bounds [of "year e" "month e"]
  by (cases e) (auto simp: valid_date_def date_le_def date_max_def days_in_month_def MAXYEAR_def
      split: if_splits)

lemma add_one_day_raises:
  "valid_date c \<Longrightarrow> add_one_day c = Inl x \<Longrightarrow> c = date_max"
  by (cases c) (auto simp: add_one_day_def valid_date_def date_max_def days_in_month_def
      split: if_splits)

lemma add_one_day_valid:
  "valid_date c \<Longrightarrow> add_one_day c = Inr n \<Longrightarrow> valid_date n"
  using days_in_month_bounds [of "year c" "month c"]
    days_in_month_bounds [of "year c" "Suc (month c)"] days_in_month_bounds [of "Suc (year c)" 1]
  by (auto simp: add_one_day_def valid_date_def split: if_splits)

lemma add_one_day_next:
  "valid_date c \<Longrightarrow> add_one_day c = Inr n \<Longrightarrow> valid_date d \<Longrightarrow>
   date_less c d \<longleftrightarrow> date_le n d"
  by (auto simp: add_one_day_def valid_date_def date_less_def date_le_def split: if_splits)

text \<open>
  For an end date before 9999-12-31 the loop returns the dates from the start to the end,
  each once and in order.
\<close>

lemma build_cycle_dates_correct:
  "valid_date c \<Longrightarrow> valid_date e \<Longrightarrow> e \<noteq> date_max \<Longrightarrow>
   \<exists>ds. build_cycle_dates c e acc = Inr (acc @ map isoformat ds) \<and>
     set ds = {d. valid_date d \<and> date_le c d \<and> date_le d e} \<and>
     sorted_wrt date_less ds"
proof (induction c e acc rule: build_cycle_dates.induct)
  case (1 c e acc)
  show ?case
  proof (cases "date_le c e")
    case False
    then have "{d. valid_date d \<and> date_le c d \<and> date_le d e} = {}"
      using date_le_trans by blast
    with False show ?thesis
      by (simp add: build_cycle_dates.simps [of c e acc])
  next
    case True
    have "\<exists>n. add_one_day c = Inr n"
    proof (cases "add_one_day c")
      case (Inl x)
      with "1.prems"(1) have "c = date_max" by (rule add_one_day_raises)
      with True "1.prems"(2) have "e = date_max" by (simp add: date_max_top)
      with "1.prems"(3) show ?thesis by simp
    next
      case (Inr n)
      then show ?thesis by blast
    qed
    then obtain n where n: "add_one_day c = Inr n" by blast
    from "1.prems"(1) n have vn: "valid_date n" by (rule add_one_day_valid)
    from "1.IH" [OF True n vn "1.prems"(2,3)]
    obtain ds where b: "build_cycle_dates n e (acc @ [isoformat c]) =
        Inr ((acc @ [isoformat c]) @ map isoformat ds)"
      and s: "set ds = {d. valid_date d \<and> date_le n d \<and> date_le d e}"
      and o: "sorted_wrt date_less ds"
      by blast
    have nx: "\<And>d. valid_date d \<Longrightarrow> date_less c d \<longleftrightarrow> date_le n d"
      using "1.prems"(1) n by (rule add_one_day_next)
    have r: "build_cycle_dates c e acc = Inr (acc @ map isoformat (c # ds))"
      using True n b by (simp add: build_cycle_dates.simps [of c e acc])
    have st: "set (c # ds) = {d. valid_date d \<and> date_le c d \<and> date_le d e}"
      using s nx "1.prems"(1) True by (auto simp: date_le_iff)
    have so: "sorted_wrt date_less (c # ds)"
      using o s nx by auto
    from r st so show ?thesis by blast
  qed
qed

lemma strptime_date_valid: "strptime_date s = Some d \<Longrightarrow> valid_date d"
  by (auto simp: strptime_date_def split: option.splits prod.splits if_splits)

lemma cycle_dates_inclusive:
  assumes "get_client env w = (Inr garmin, w1)"
    and "strptime_date start_date = Some start"
    and "strptime_date end_date = Some end'"
    and "date_le start end'"
    and "end' \<noteq> date_max"
    and "\<And>payload. \<exists>r. respond env (trace w1)
       (Request garmin (Garmin_connectapi MENSTRUAL_CALENDAR_URL ''POST'' payload)) = Inr r"
  shows "\<exists>ds w'. update_menstrual_cycle env start_date end_date w =
       (Inr (JDict [(''success'', JBool True),
          (''message'',
             JStr (''Period logged: '' @ start_date @ '' to '' @ end_date @ '' ('' @
               decimal (length ds) @ '' days)'')),
          (''dates'', JList (map (\<lambda>d. JStr (isoformat d)) ds))]), w') \<and>
     set ds = {d. valid_date d \<and> date_le start d \<and> date_le d end'} \<and>
     sorted_wrt date_less ds"
proof -
  from assms(2,3) have v: "valid_date start" "valid_date end'"
    by (simp_all add: strptime_date_valid)
  from build_cycle_dates_correct [OF v assms(5), of "[]"]
  obtain ds where b: "build_cycle_dates start end' [] = Inr (map isoformat ds)"
    and s: "set ds = {d. valid_date d \<and> date_le start d \<and> date_le d end'}"
    and o: "sorted_wrt date_less ds"
    by auto
  from assms(6) obtain r where r: "respond env (trace w1)
       (Request garmin (Garmin_connectapi MENSTRUAL_CALENDAR_URL ''POST''
          (cycle_payload env start_date end_date (map isoformat ds)))) = Inr r"
    by blast
  from assms(4) have nl: "\<not> date_less end' start"
    by (auto simp: date_le_def date_less_def)
  have "update_menstrual_cycle env start_date end_date w =
       (Inr (JDict [(''success'', JBool True),
          (''message'',
             JStr (''Period logged: '' @ start_date @ '' to '' @ end_date @ '' ('' @
               decimal (length ds) @ '' days)'')),
          (''dates'', JList (map (\<lambda>d. JStr (isoformat d)) ds))]),
        w1\<lparr>trace := trace w1 @ [Request garmin (Garmin_connectapi MENSTRUAL_CALENDAR_URL ''POST''
          (cycle_payload env start_date end_date (map isoformat ds)))]\<rparr>)"
    using assms(1,2,3) nl b r
    by (simp add: update_menstrual_cycle_def update_menstrual_cycle_body_def try_except_def
        cbind_def lift_def strptime_def returns_def call_def cycle_message_def comp_def)
  with s o show ?thesis by blast
qed

text \<open>The example of the specification: three days in January 2024.\<close>

lemma dates_jan_1_to_3:
  "build_cycle_dates \<lparr>year = 2024, month = 1, day = 1\<rparr> \<lparr>year = 2024, month = 1, day = 3\<rparr> [] =
     Inr [''2024-01-01'', ''2024-01-02'', ''2024-01-03'']"
  by code_simp

lemma decimal_3: "decimal (Suc (Suc (Suc 0))) = ''3''"
  by code_simp

lemma cycle_jan_1_to_3:
  "fst (update_menstrual_cycle (sample_env False None None respond_ok) ''2024-01-01'' ''2024-01-03''
     world1) =
   Inr (JDict [(''success'', JBool True),
     (''message'', JStr ''Period logged: 2024-01-01 to 2024-01-03 (3 days)''),
     (''dates'', JList [JStr ''2024-01-01'', JStr ''2024-01-02'', JStr ''2024-01-03''])])"
proof -
  have g: "get_client (sample_env False None None respond_ok) world1 = (Inr Token_session, world1)"
    by (simp add: get_client_cached world1_def)
  have n: "\<not> date_less \<lparr>year = 2024, month = 1, day = 3\<rparr> \<lparr>year = 2024, month = 1, day = 1\<rparr>"
    by (simp add: date_less_def)
  have r: "\<And>h ev. respond (sample_env False None None respond_ok) h ev = Inr JNull"
    by (simp add: sample_env_def respond_ok_def)
  show ?thesis
    using g n dates_jan_1_to_3
    by (simp add: parse_0101 parse_0103 update_menstrual_cycle_def update_menstrual_cycle_body_def
        try_except_def cbind_def lift_def strptime_def returns_def call_def r cycle_message_def
        decimal_3)
qed

text \<open>For the end date 9999-12-31 the loop steps past the last date and raises.\<close>

lemma build_cycle_dates_overflow:
  "valid_date c \<Longrightarrow> e = date_max \<Longrightarrow>
   build_cycle_dates c e acc = Inl (OtherException ''date value out of range'')"
proof (induction c e acc rule: build_cycle_dates.induct)
  case (1 c e acc)
  from "1.prems" have le: "date_le c e" by (simp add: date_le_max)
  show ?case
  proof (cases "add_one_day c")
    case (Inl x)
    then have "x = OtherException ''date value out of range''"
      by (auto simp: add_one_day_def split: if_splits)
    with le Inl show ?thesis
      by (simp add: build_cycle_dates.simps [of c e acc])
  next
    case (Inr n)
    from "1.prems"(1) Inr have "valid_date n" by (rule add_one_day_valid)
    from "1.IH" [OF le Inr this "1.prems"(2)] le Inr show ?thesis
      by (simp add: build_cycle_dates.simps [of c e acc])
  qed
qed

lemma parse_max: "strptime_date ''9999-12-31'' = Some date_max"
  by code_simp

lemma valid_date_max: "valid_date date_max"
  by code_simp

text \<open>
  Claim C3 holds for every end date before 9999-12-31 (\<open>cycle_dates_inclusive\<close>) and on the
  example (\<open>cycle_jan_1_to_3\<close>), but not for the end date 9999-12-31: both strings are valid
  dates and the end is not before the start, yet the handler, with a session at hand,
  returns the failure envelope "date value out of range" and sends nothing, where the claim
  has the one-day list and "1 days".
\<close>

theorem cycle_ending_at_date_max:
  "strptime_date ''9999-12-31'' = Some date_max \<and>
   \<not> date_less date_max date_max \<and>
   update_menstrual_cycle (sample_env False None None respond_ok) ''9999-12-31'' ''9999-12-31''
     world1 = (Inr (failure ''date value out of range''), world1)"
proof -
  have g: "get_client (sample_env False None None respond_ok) world1 = (Inr Token_session, world1)"
    by (simp add: get_client_cached world1_def)
  have b: "build_cycle_dates date_max date_max [] = Inl (OtherException ''date value out of range'')"
    using valid_date_max by (simp add: build_cycle_dates_overflow)
  have n: "\<not> date_less date_max date_max"
    by (simp add: date_less_def)
  show ?thesis
    using g b n
    by (simp add: parse_max update_menstrual_cycle_def update_menstrual_cycle_body_def
        try_except_def cbind_def lift_def strptime_def cycle_clauses_def except_Exception_def)
qed

end
